theory Spec2Isabelle
  imports Main "HOL-Library.Sublist"
begin

section \<open>The estimator of kepler-model-server: request handling and the model cache\<close>

text \<open>
  A shallow embedding of \<^verbatim>\<open>src/kepler_model/estimate/estimator.py\<close>. The module keeps
  one global dictionary \<^verbatim>\<open>loaded_model\<close> (output type name, then energy source, then the
  loaded item) and works on the download directory of the local disk through
  \<^verbatim>\<open>os.path.exists\<close> and \<^verbatim>\<open>shutil.rmtree\<close>. Both are fields of an explicit state here.
  Everything the module imports from other modules (the artifact locator, the two
  resolvers, the loader, the prediction capability of a loaded item, the switch of the
  model server) and from the Python library (\<^verbatim>\<open>json.loads\<close>, \<^verbatim>\<open>json.dumps\<close>) is a field of
  an environment record: the functions below are parametric in it.
\<close>

subsection \<open>Data\<close>

text \<open>The exceptions that leave the functions of the module.\<close>

datatype py_error = AttributeError | KeyError | IndexError | UnicodeDecodeError

text \<open>
  \<^verbatim>\<open>class PowerRequest\<close>. The field \<^verbatim>\<open>filter\<close> is named \<open>filter_name\<close> (the name clashes
  with the list function). \<^verbatim>\<open>source\<close> may be null on the wire, \<^verbatim>\<open>trainer_name\<close> too; the
  data frame built by the constructor is kept abstract (\<open>'f\<close>).
\<close>

record 'f power_request =
  trainer_name :: "string option"
  metrics :: "string list"
  filter_name :: string
  output_type :: string
  energy_source :: "string option"
  system_features :: "string list"
  datapoint :: 'f

text \<open>
  What \<^verbatim>\<open>load_downloaded_model\<close> returns: an object with a name, the trainer that
  produced it and an estimator, which may be None. Its field \<^verbatim>\<open>trainer_name\<close> is
  \<open>item_trainer_name\<close> here, apart from the request's field of the same name.
\<close>

record 'e loaded_item =
  model_name :: string
  item_trainer_name :: string
  estimator :: "'e option"

text \<open>The dictionary \<^verbatim>\<open>{"powers": ..., "msg": ...}\<close> that \<^verbatim>\<open>handle_request\<close> returns.\<close>

record 'v response =
  powers :: "string \<rightharpoonup> 'v"
  msg :: string

text \<open>
  The result of \<^verbatim>\<open>json.loads(data, object_hook=lambda d: PowerRequest(**d))\<close> when it does
  not raise: a request when the text is a JSON object, any other Python value
  (a list, a number, a string, None) when it is not.
\<close>

datatype 'f json_value = Request "'f power_request" | NotAnObject

text \<open>
  The calls that reach the disk, a resolver or the loader, each with what it returned, in
  the order the module makes them. The log is a ghost field of the state: it records the
  calls and changes nothing.
\<close>

datatype 'e event =
    PathExists string bool
  | Rmtree string
  | MakeRequest "string option"
  | GetArchived "string option"
  | LoadDownloaded string string "'e loaded_item option"

type_synonym 'e model_cache = "string \<rightharpoonup> (string \<rightharpoonup> 'e loaded_item)"

record 'e state =
  loaded_model :: "'e model_cache"
  disk :: "string set"
  calls :: "'e event list"

text \<open>
  The environment: the imported functions and constants. \<open>ModelOutputType\<close> lists the
  member names of the enum; a resolver sees the disk and may change it (a download);
  the loader reads it. \<open>get_power\<close> is the method of the loaded item, with the item as
  its first argument.
\<close>

record ('f, 'e, 'v) env =
  json_loads :: "string \<Rightarrow> string + 'f json_value"
  json_dumps :: "'v response \<Rightarrow> string"
  ModelOutputType :: "string list"
  is_model_server_enabled :: bool
  download_path :: string
  get_download_output_path :: "string \<Rightarrow> string \<Rightarrow> string \<Rightarrow> string"
  make_request :: "'f power_request \<Rightarrow> string set \<Rightarrow> string option \<times> string set"
  get_achived_model :: "'f power_request \<Rightarrow> string set \<Rightarrow> string option \<times> string set"
  load_downloaded_model :: "string \<Rightarrow> string \<Rightarrow> string set \<Rightarrow> 'e loaded_item option"
  get_power :: "'e loaded_item \<Rightarrow> 'f \<Rightarrow> (string \<rightharpoonup> 'v) \<times> string"

subsection \<open>The disk\<close>

text \<open>
  The disk is the set of paths that exist. \<^verbatim>\<open>shutil.rmtree(p)\<close> removes \<open>p\<close> and all that
  lies below it; both calls of the module are guarded by \<^verbatim>\<open>os.path.exists(p)\<close>.
\<close>

definition below :: "string \<Rightarrow> string \<Rightarrow> bool" where
  "below p q = (q = p \<or> prefix (p @ ''/'') q)"

definition os_path_exists :: "string \<Rightarrow> 'e state \<Rightarrow> bool \<times> 'e state" where
  "os_path_exists p s = (p \<in> disk s, s\<lparr>calls := calls s @ [PathExists p (p \<in> disk s)]\<rparr>)"

definition shutil_rmtree :: "string \<Rightarrow> 'e state \<Rightarrow> 'e state" where
  "shutil_rmtree p s =
     s\<lparr>disk := Set.filter (\<lambda>q. \<not> below p q) (disk s), calls := calls s @ [Rmtree p]\<rparr>"

subsection \<open>The pieces of \<^verbatim>\<open>handle_request\<close>\<close>

text \<open>\<^verbatim>\<open>sub in s\<close> on Python strings: \<open>sub\<close> occurs in \<open>s\<close> as a contiguous piece.\<close>

fun py_in :: "string \<Rightarrow> string \<Rightarrow> bool" where
  "py_in sub [] = (sub = [])"
| "py_in sub (c # cs) = (prefix sub (c # cs) \<or> py_in sub cs)"

text \<open>
  Modelled from the spec: \<^verbatim>\<open>is_output_type_supported\<close> of \<^verbatim>\<open>kepler_model.util.train_types\<close>
  is not among the sources; the spec has the output type "one of a fixed supported set",
  the set of the enum's member names.
\<close>

definition is_output_type_supported :: "('f, 'e, 'v) env \<Rightarrow> string \<Rightarrow> bool" where
  "is_output_type_supported env name = (name \<in> set (ModelOutputType env))"

text \<open>
  Lines 61-62: a null source and a source that contains \<^verbatim>\<open>rapl\<close> become \<^verbatim>\<open>rapl-sysfs\<close>.
\<close>

definition normalize_energy_source :: "string option \<Rightarrow> string" where
  "normalize_energy_source src =
     (case src of
        None \<Rightarrow> ''rapl-sysfs''
      | Some s \<Rightarrow> if py_in ''rapl'' s then ''rapl-sysfs'' else s)"

text \<open>\<^verbatim>\<open>loaded_model[ot][src]\<close> when both keys are there.\<close>

definition cache_lookup :: "'e model_cache \<Rightarrow> string \<Rightarrow> string \<Rightarrow> 'e loaded_item option" where
  "cache_lookup lm ot src = (case lm ot of None \<Rightarrow> None | Some inner \<Rightarrow> inner src)"

text \<open>Lines 64-65: the inner dictionary of an output type is made on first use.\<close>

definition init_output_type :: "string \<Rightarrow> 'e state \<Rightarrow> 'e state" where
  "init_output_type ot s =
     (case loaded_model s ot of
        None \<Rightarrow> s\<lparr>loaded_model := (loaded_model s)(ot \<mapsto> Map.empty)\<rparr>
      | Some _ \<Rightarrow> s)"

text \<open>Lines 68-75: the flag \<^verbatim>\<open>mismatch_trainer\<close>.\<close>

definition mismatch_trainer ::
  "('f, 'e, 'v) env \<Rightarrow> 'e model_cache \<Rightarrow> string \<Rightarrow> string \<Rightarrow> string option \<Rightarrow> bool" where
  "mismatch_trainer env lm ot src tn =
     (if is_model_server_enabled env then
        (case tn of
           None \<Rightarrow> False
         | Some t \<Rightarrow>
             if t \<noteq> [] then
               (case lm ot of
                  None \<Rightarrow> False
                | Some inner \<Rightarrow>
                    (case inner src of
                       None \<Rightarrow> False
                     | Some current \<Rightarrow> item_trainer_name current \<noteq> t))
             else False)
      else False)"

text \<open>The two resolvers, with their call logged.\<close>

definition call_make_request ::
  "('f, 'e, 'v) env \<Rightarrow> 'f power_request \<Rightarrow> 'e state \<Rightarrow> string option \<times> 'e state" where
  "call_make_request env pr s =
     (let (r, d) = make_request env pr (disk s)
      in (r, s\<lparr>disk := d, calls := calls s @ [MakeRequest r]\<rparr>))"

definition call_get_achived_model ::
  "('f, 'e, 'v) env \<Rightarrow> 'f power_request \<Rightarrow> 'e state \<Rightarrow> string option \<times> 'e state" where
  "call_get_achived_model env pr s =
     (let (r, d) = get_achived_model env pr (disk s)
      in (r, s\<lparr>disk := d, calls := calls s @ [GetArchived r]\<rparr>))"

text \<open>
  Lines 78-80: with the flag set, a directory at the locator's path is removed.
  \<^verbatim>\<open>os.path.exists\<close> is called only when the flag is set.
\<close>

definition remove_on_mismatch :: "string \<Rightarrow> bool \<Rightarrow> 'e state \<Rightarrow> 'e state" where
  "remove_on_mismatch output_path mm s =
     (if mm then
        (let (ex, s1) = os_path_exists output_path s
         in if ex then shutil_rmtree output_path s1 else s1)
      else s)"

text \<open>
  Lines 81-93: when nothing lies at the path, ask the model server, then the archive. The
  result is the early return of line 90 (\<open>Inl\<close>) or the new value of \<^verbatim>\<open>output_path\<close>.
\<close>

definition fetch_model ::
  "('f, 'e, 'v) env \<Rightarrow> string \<Rightarrow> 'f power_request \<Rightarrow> string \<Rightarrow> 'e state
     \<Rightarrow> ('v response + string) \<times> 'e state" where
  "fetch_model env data pr output_path s =
     (let (ex, s1) = os_path_exists output_path s
      in if \<not> ex then
           (let (r, s2) = call_make_request env pr s1
            in case r of
                 Some p \<Rightarrow> (Inr p, s2)
               | None \<Rightarrow>
                   (let (r', s3) = call_get_achived_model env pr s2
                    in case r' of
                         None \<Rightarrow>
                           (Inl \<lparr>powers = Map.empty,
                                 msg = ''failed to get model from request '' @ data\<rparr>, s3)
                       | Some p \<Rightarrow> (Inr p, s3)))
         else (Inr output_path, s1))"

text \<open>
  Lines 95-99: load what lies on the disk for the key pair and put it into the cache when
  it is an item with an estimator; otherwise leave the cache as it is. The inner
  dictionary of the output type is there since line 65.
\<close>

definition load_and_install ::
  "('f, 'e, 'v) env \<Rightarrow> string \<Rightarrow> string \<Rightarrow> 'e state \<Rightarrow> 'e state" where
  "load_and_install env ot src s =
     (let loaded = load_downloaded_model env src ot (disk s);
          s1 = s\<lparr>calls := calls s @ [LoadDownloaded src ot loaded]\<rparr>
      in case loaded of
           None \<Rightarrow> s1
         | Some item \<Rightarrow>
             (case estimator item of
                None \<Rightarrow> s1
              | Some _ \<Rightarrow>
                  s1\<lparr>loaded_model := (loaded_model s1)
                       (ot \<mapsto> (case loaded_model s1 ot of
                                  None \<Rightarrow> Map.empty
                                | Some inner \<Rightarrow> inner)(src \<mapsto> item))\<rparr>))"

text \<open>
  Lines 77-99, the body of \<^verbatim>\<open>if ... not in loaded_model[...] or mismatch_trainer\<close>: locate,
  remove on a mismatch, fetch, load. The result is the early return or the value of
  \<^verbatim>\<open>output_path\<close> after the block.
\<close>

definition resolve_model ::
  "('f, 'e, 'v) env \<Rightarrow> string \<Rightarrow> 'f power_request \<Rightarrow> string \<Rightarrow> string \<Rightarrow> bool \<Rightarrow> 'e state
     \<Rightarrow> ('v response + string) \<times> 'e state" where
  "resolve_model env data pr ot src mm s =
     (let output_path = get_download_output_path env (download_path env) src ot;
          s1 = remove_on_mismatch output_path mm s
      in case fetch_model env data pr output_path s1 of
           (Inl resp, s2) \<Rightarrow> (Inl resp, s2)
         | (Inr p, s2) \<Rightarrow> (Inr p, load_and_install env ot src s2))"

text \<open>
  Lines 101-108: take the item from the cache (a KeyError when there is none), ask it for
  the powers, and when it reports a message remove the directory \<^verbatim>\<open>output_path\<close> names,
  unless \<^verbatim>\<open>output_path\<close> is still the empty string.
\<close>

definition predict ::
  "('f, 'e, 'v) env \<Rightarrow> 'f power_request \<Rightarrow> string \<Rightarrow> string \<Rightarrow> string \<Rightarrow> 'e state
     \<Rightarrow> (py_error + 'v response) \<times> 'e state" where
  "predict env pr ot src output_path s =
     (case cache_lookup (loaded_model s) ot src of
        None \<Rightarrow> (Inl KeyError, s)
      | Some model \<Rightarrow>
          (let (pw, m) = get_power env model (datapoint pr)
           in if m \<noteq> [] then
                (if output_path \<noteq> [] then
                   (let (ex, s1) = os_path_exists output_path s
                    in (Inr \<lparr>powers = pw, msg = m\<rparr>,
                        if ex then shutil_rmtree output_path s1 else s1))
                 else (Inr \<lparr>powers = pw, msg = m\<rparr>, s))
              else (Inr \<lparr>powers = pw, msg = m\<rparr>, s)))"

text \<open>
  Lines 54-108, after the parse. Line 59 looks the enum member up by name (a KeyError for
  a name that is no member); the member is its name here. Line 62 overwrites the source of
  the request, so the resolvers see the normalised one. After line 65 the inner dictionary
  of the output type exists, so the test of line 76 is whether the key pair has an entry.
\<close>

definition handle_power_request ::
  "('f, 'e, 'v) env \<Rightarrow> string \<Rightarrow> 'f power_request \<Rightarrow> 'e state
     \<Rightarrow> (py_error + 'v response) \<times> 'e state" where
  "handle_power_request env data pr s =
     (if \<not> is_output_type_supported env (output_type pr) then
        (Inr \<lparr>powers = Map.empty,
              msg = ''output type '' @ output_type pr @ '' is not supported''\<rparr>, s)
      else if output_type pr \<notin> set (ModelOutputType env) then (Inl KeyError, s)
      else
        (let ot = output_type pr;
             src = normalize_energy_source (energy_source pr);
             pr1 = pr\<lparr>energy_source := Some src\<rparr>;
             s0 = init_output_type ot s;
             mm = mismatch_trainer env (loaded_model s0) ot src (trainer_name pr1)
         in if cache_lookup (loaded_model s0) ot src = None \<or> mm then
              (case resolve_model env data pr1 ot src mm s0 of
                 (Inl resp, s1) \<Rightarrow> (Inr resp, s1)
               | (Inr output_path, s1) \<Rightarrow> predict env pr1 ot src output_path s1)
            else predict env pr1 ot src [] s0))"

text \<open>
  \<^verbatim>\<open>handle_request\<close>: lines 46-52 parse; an exception of the parser or of the constructor
  becomes a response; a JSON text that is not an object has no attribute
  \<^verbatim>\<open>output_type\<close> on line 54.
\<close>

definition handle_request ::
  "('f, 'e, 'v) env \<Rightarrow> string \<Rightarrow> 'e state \<Rightarrow> (py_error + 'v response) \<times> 'e state" where
  "handle_request env data s =
     (case json_loads env data of
        Inl e \<Rightarrow> (Inr \<lparr>powers = Map.empty, msg = ''failed to handle request: '' @ e\<rparr>, s)
      | Inr NotAnObject \<Rightarrow> (Inl AttributeError, s)
      | Inr (Request pr) \<Rightarrow> handle_power_request env data pr s)"

subsection \<open>The connection handler\<close>

text \<open>
  A connection, seen from \<^verbatim>\<open>EstimatorServer.accepted\<close>: the byte strings that are still to
  arrive, in order; whether the peer shuts its side down after them (then \<^verbatim>\<open>recv\<close> returns
  the empty byte string, otherwise it waits for ever); and what has been sent back.
\<close>

record connection =
  incoming :: "string list"
  peer_eof :: bool
  outgoing :: "string list"

text \<open>
  \<^verbatim>\<open>connection.recv(bufsize)\<close>: at most \<open>bufsize\<close> bytes of what has arrived; the rest stays
  for the next call. \<open>None\<close> is the call that never returns.
\<close>

definition recv :: "nat \<Rightarrow> connection \<Rightarrow> (string \<times> connection) option" where
  "recv bufsize c =
     (case incoming c of
        [] \<Rightarrow> if peer_eof c then Some ([], c) else None
      | b # bs \<Rightarrow>
          if length b \<le> bufsize then Some (b, c\<lparr>incoming := bs\<rparr>)
          else Some (take bufsize b, c\<lparr>incoming := drop bufsize b # bs\<rparr>))"

text \<open>\<^verbatim>\<open>bytes.strip()\<close> removes ASCII white space at both ends.\<close>

definition is_space :: "char \<Rightarrow> bool" where
  "is_space ch = (ch \<in> set [CHR '' '', CHR 0x09, CHR 0x0A, CHR 0x0B, CHR 0x0C, CHR 0x0D])"

definition strip :: "string \<Rightarrow> string" where
  "strip bs = rev (dropWhile is_space (rev (dropWhile is_space bs)))"

text \<open>
  \<^verbatim>\<open>bytes.decode()\<close> is the strict UTF-8 decoder: it raises on a byte string that is not
  well-formed UTF-8. A Python string is kept as its UTF-8 bytes; the last character of a
  well-formed string is \<^verbatim>\<open>}\<close> exactly when its last byte is.
\<close>

definition cont :: "nat \<Rightarrow> bool" where
  "cont b = (0x80 \<le> b \<and> b \<le> 0xBF)"

fun utf8_valid :: "nat list \<Rightarrow> bool" where
  "utf8_valid [] = True"
| "utf8_valid (b # bs) =
     (if b < 0x80 then utf8_valid bs
      else if 0xC2 \<le> b \<and> b \<le> 0xDF then
        (case bs of c1 # r \<Rightarrow> cont c1 \<and> utf8_valid r | _ \<Rightarrow> False)
      else if 0xE0 \<le> b \<and> b \<le> 0xEF then
        (case bs of
           c1 # c2 # r \<Rightarrow>
             (if b = 0xE0 then 0xA0 else 0x80) \<le> c1 \<and> c1 \<le> (if b = 0xED then 0x9F else 0xBF)
             \<and> cont c2 \<and> utf8_valid r
         | _ \<Rightarrow> False)
      else if 0xF0 \<le> b \<and> b \<le> 0xF4 then
        (case bs of
           c1 # c2 # c3 # r \<Rightarrow>
             (if b = 0xF0 then 0x90 else 0x80) \<le> c1 \<and> c1 \<le> (if b = 0xF4 then 0x8F else 0xBF)
             \<and> cont c2 \<and> cont c3 \<and> utf8_valid r
         | _ \<Rightarrow> False)
      else False)"

definition decode :: "string \<Rightarrow> py_error + string" where
  "decode bs = (if utf8_valid (map of_char bs) then Inr bs else Inl UnicodeDecodeError)"

text \<open>
  The loop of \<^verbatim>\<open>accepted\<close> (lines 133-137). \<^verbatim>\<open>shunk is None\<close> is never true:
  \<^verbatim>\<open>strip\<close> returns a byte string. \<^verbatim>\<open>shunk.decode()[-1]\<close> raises an IndexError on the empty
  string. The result is the accumulated data and the connection after the loop, an
  exception, or \<open>None\<close> when a \<^verbatim>\<open>recv\<close> never returns.
\<close>

function read_request :: "string \<Rightarrow> connection \<Rightarrow> (py_error + string \<times> connection) option" where
  "read_request data c =
     (case recv 1024 c of
        None \<Rightarrow> None
      | Some (raw, c1) \<Rightarrow>
          (case decode (strip raw) of
             Inl e \<Rightarrow> Some (Inl e)
           | Inr decoded \<Rightarrow>
               if decoded = [] then Some (Inl IndexError)
               else if last decoded = CHR ''}'' then Some (Inr (data @ strip raw, c1))
               else read_request (data @ strip raw) c1))"
  by pat_completeness auto
termination
proof (relation "measure (\<lambda>(data, c). sum_list (map length (incoming c)) + length (incoming c))")
  show "wf (measure (\<lambda>(data, c). sum_list (map length (incoming c)) + length (incoming c)))"
    by simp
next
  fix data :: string and c :: connection and x2 x y :: "string \<times> connection" and raw c1 decoded
  assume "recv 1024 c = Some x2" "(raw, c1) = x2" "decode (strip raw) = Inr decoded" "decoded \<noteq> []"
  then have r: "recv 1024 c = Some (raw, c1)" and ne: "strip raw \<noteq> []"
    by (auto simp: decode_def split: if_splits)
  from ne have "raw \<noteq> []" by (auto simp: strip_def)
  with r show "((data @ strip raw, c1), (data, c))
      \<in> measure (\<lambda>(data, c). sum_list (map length (incoming c)) + length (incoming c))"
    by (auto simp: recv_def split: list.splits if_splits)
qed

text \<open>
  \<^verbatim>\<open>accepted\<close> (lines 131-141): read, decode, handle, send the response. An exception of
  \<^verbatim>\<open>handle_request\<close> leaves \<^verbatim>\<open>accepted\<close> as it is. \<^verbatim>\<open>send\<close> appends to what the peer gets.
\<close>

definition accepted ::
  "('f, 'e, 'v) env \<Rightarrow> connection \<Rightarrow> 'e state \<Rightarrow> (py_error + connection \<times> 'e state) option" where
  "accepted env c s =
     (case read_request [] c of
        None \<Rightarrow> None
      | Some (Inl e) \<Rightarrow> Some (Inl e)
      | Some (Inr (data, c1)) \<Rightarrow>
          (case decode data of
             Inl e \<Rightarrow> Some (Inl e)
           | Inr decoded_data \<Rightarrow>
               (case handle_request env decoded_data s of
                  (Inl e, s1) \<Rightarrow> Some (Inl e)
                | (Inr y, s1) \<Rightarrow>
                    Some (Inr (c1\<lparr>outgoing := outgoing c1 @ [json_dumps env y]\<rparr>, s1)))))"

text \<open>Requests served one after the other on the same state, as the accept loop does.\<close>

fun handle_requests ::
  "('f, 'e, 'v) env \<Rightarrow> string list \<Rightarrow> 'e state \<Rightarrow> (py_error + 'v response) list \<times> 'e state" where
  "handle_requests env [] s = ([], s)"
| "handle_requests env (data # rest) s =
     (let (r, s1) = handle_request env data s;
          (rs, s2) = handle_requests env rest s1
      in (r # rs, s2))"

subsection \<open>What the spec says of the mismatch flag\<close>

text \<open>
  The flag as the spec words it: the request names a non-empty trainer, the key pair has
  an entry, and the trainer of that entry is another one.
\<close>

definition names_other_trainer ::
  "'e model_cache \<Rightarrow> string \<Rightarrow> string \<Rightarrow> string option \<Rightarrow> bool" where
  "names_other_trainer lm ot src tn =
     (case tn of
        None \<Rightarrow> False
      | Some t \<Rightarrow>
          t \<noteq> [] \<and>
          (case cache_lookup lm ot src of
             None \<Rightarrow> False
           | Some current \<Rightarrow> item_trainer_name current \<noteq> t))"

text \<open>The calls a run has added to the log.\<close>

definition new_calls :: "'e state \<Rightarrow> 'e state \<Rightarrow> 'e event list" where
  "new_calls s s' = drop (length (calls s)) (calls s')"

text \<open>A loaded item the cache accepts (line 97).\<close>

definition usable :: "'e loaded_item option \<Rightarrow> bool" where
  "usable loaded = (case loaded of None \<Rightarrow> False | Some item \<Rightarrow> estimator item \<noteq> None)"

text \<open>
  What a run may do to the cache, told by the calls \<open>evs\<close> it has logged: either the cache
  is as before and no load was usable, or the one load of the run gave a usable item and
  the key pair now holds it. \<open>load_outcome\<close> compares the dictionaries, \<open>lookups_outcome\<close>
  the entries of the key pairs.
\<close>

definition load_outcome ::
  "'e model_cache \<Rightarrow> 'e model_cache \<Rightarrow> string \<Rightarrow> string \<Rightarrow> 'e event list \<Rightarrow> bool" where
  "load_outcome lm lm' ot src evs =
     ((lm' = lm \<and> (\<forall>a b l. LoadDownloaded a b l \<in> set evs \<longrightarrow> \<not> usable l))
      \<or> (\<exists>item. estimator item \<noteq> None \<and> LoadDownloaded src ot (Some item) \<in> set evs
            \<and> (\<forall>a b l. LoadDownloaded a b l \<in> set evs \<longrightarrow> l = Some item)
            \<and> cache_lookup lm' ot src = Some item))"

definition lookups_outcome ::
  "'e model_cache \<Rightarrow> 'e model_cache \<Rightarrow> string \<Rightarrow> string \<Rightarrow> 'e event list \<Rightarrow> bool" where
  "lookups_outcome lm lm' ot src evs =
     (((\<forall>k1 k2. cache_lookup lm' k1 k2 = cache_lookup lm k1 k2)
        \<and> (\<forall>a b l. LoadDownloaded a b l \<in> set evs \<longrightarrow> \<not> usable l))
      \<or> (\<exists>item. estimator item \<noteq> None \<and> LoadDownloaded src ot (Some item) \<in> set evs
            \<and> (\<forall>a b l. LoadDownloaded a b l \<in> set evs \<longrightarrow> l = Some item)
            \<and> cache_lookup lm' ot src = Some item))"

subsection \<open>A small environment to run the functions in\<close>

text \<open>
  Requests with one metric and one row; a parser that knows a few texts (stand-ins for
  the JSON texts of such requests) and a printer that shows the message only; items whose
  prediction fails when the estimator is number 0; resolvers that return a fixed answer
  and put the path they return on the disk; a loader with a fixed answer.
\<close>

definition toy_request :: "string option \<Rightarrow> string option \<Rightarrow> string \<Rightarrow> nat list power_request" where
  "toy_request src tn ot =
     \<lparr>trainer_name = tn, metrics = [''cpu_time''], filter_name = [], output_type = ot,
      energy_source = src, system_features = [], datapoint = [10]\<rparr>"

definition toy_loads :: "string \<Rightarrow> string + nat list json_value" where
  "toy_loads data =
     (if data = ''{abs rapl}'' then
        Inr (Request (toy_request (Some ''rapl'') (Some []) ''AbsPower''))
      else if data = ''{abs null}'' then
        Inr (Request (toy_request None (Some []) ''AbsPower''))
      else if data = ''{abs rapl xgb}'' then
        Inr (Request (toy_request (Some ''rapl'') (Some ''XgboostFitTrainer'') ''AbsPower''))
      else if data = ''{watt acpi}'' then
        Inr (Request (toy_request (Some ''acpi'') (Some []) ''Watt''))
      else if data = ''[1]'' then Inr NotAnObject
      else Inl ''Expecting value'')"

definition toy_item :: "string \<Rightarrow> nat option \<Rightarrow> nat loaded_item" where
  "toy_item tr est = \<lparr>model_name = tr @ ''_0'', item_trainer_name = tr, estimator = est\<rparr>"

definition toy_get_power :: "nat loaded_item \<Rightarrow> nat list \<Rightarrow> (string \<rightharpoonup> int) \<times> string" where
  "toy_get_power item frame =
     (if estimator item = Some 0 then (Map.empty, ''model is not fitted'')
      else ([''package'' \<mapsto> 42], []))"

definition toy_env ::
  "bool \<Rightarrow> string option \<Rightarrow> string option \<Rightarrow> nat loaded_item option
     \<Rightarrow> (nat list, nat, int) env" where
  "toy_env enabled remote archived loaded =
     \<lparr>json_loads = toy_loads,
      json_dumps = (\<lambda>r. ''{msg: '' @ msg r @ ''}''),
      ModelOutputType = [''AbsPower'', ''DynPower''],
      is_model_server_enabled = enabled,
      download_path = ''/d'',
      get_download_output_path = (\<lambda>dp src ot. dp @ ''/'' @ src @ ''/'' @ ot),
      make_request = (\<lambda>pr d. (remote, case remote of None \<Rightarrow> d | Some p \<Rightarrow> insert p d)),
      get_achived_model =
        (\<lambda>pr d. (archived, case archived of None \<Rightarrow> d | Some p \<Rightarrow> insert p d)),
      load_downloaded_model = (\<lambda>src ot d. loaded),
      get_power = toy_get_power\<rparr>"

definition toy_state :: "nat model_cache \<Rightarrow> string set \<Rightarrow> nat state" where
  "toy_state lm d = \<lparr>loaded_model = lm, disk = d, calls = []\<rparr>"

definition toy_connection :: "string list \<Rightarrow> bool \<Rightarrow> connection" where
  "toy_connection chunks eof = \<lparr>incoming = chunks, peer_eof = eof, outgoing = []\<rparr>"

section \<open>Properties\<close>

lemmas toy_defs = toy_request_def toy_loads_def toy_item_def toy_get_power_def toy_env_def
  toy_state_def toy_connection_def

lemmas hr_defs = handle_request_def handle_power_request_def predict_def resolve_model_def
  remove_on_mismatch_def fetch_model_def load_and_install_def call_make_request_def
  call_get_achived_model_def mismatch_trainer_def init_output_type_def cache_lookup_def
  normalize_energy_source_def is_output_type_supported_def os_path_exists_def
  shutil_rmtree_def below_def Let_def

lemmas conn_defs = accepted_def recv_def decode_def strip_def is_space_def cont_def

subsection \<open>Helper facts\<close>


lemma init_output_type_cached:
  "cache_lookup (loaded_model s) ot src = Some model \<Longrightarrow> init_output_type ot s = s"
  by (auto simp: cache_lookup_def init_output_type_def split: option.splits)

text \<open>
  A request whose key pair is in the cache and raises no mismatch goes straight to the
  prediction: the state, with its log of calls, is the one it started in.
\<close>

lemma served_from_cache:
  assumes "json_loads env data = Inr (Request pr)"
      and "is_output_type_supported env (output_type pr)"
      and "cache_lookup (loaded_model s) (output_type pr)
             (normalize_energy_source (energy_source pr)) = Some model"
      and "\<not> mismatch_trainer env (loaded_model s) (output_type pr)
             (normalize_energy_source (energy_source pr)) (trainer_name pr)"
  shows "handle_request env data s
           = (Inr \<lparr>powers = fst (get_power env model (datapoint pr)),
                   msg = snd (get_power env model (datapoint pr))\<rparr>, s)"
proof -
  have i: "init_output_type (output_type pr) s = s"
    using assms(3) by (rule init_output_type_cached)
  show ?thesis
    using assms
    by (simp add: handle_request_def handle_power_request_def i Let_def predict_def
        is_output_type_supported_def split: prod.splits)
qed

text \<open>The calls and the cache along a run, piece by piece.\<close>

lemma predict_keeps_cache:
  "predict env pr ot src p s = (r, s') \<Longrightarrow>
     loaded_model s' = loaded_model s
     \<and> (\<exists>evs. calls s' = calls s @ evs \<and> (\<forall>a b l. LoadDownloaded a b l \<notin> set evs))"
  by (auto simp: predict_def os_path_exists_def shutil_rmtree_def Let_def
      split: option.splits prod.splits if_splits)

lemma load_and_install_cases:
  "(\<not> usable (load_downloaded_model env src ot (disk s))
      \<and> loaded_model (load_and_install env ot src s) = loaded_model s)
   \<or> (\<exists>item. load_downloaded_model env src ot (disk s) = Some item \<and> estimator item \<noteq> None
        \<and> cache_lookup (loaded_model (load_and_install env ot src s)) ot src = Some item)"
  by (auto simp: load_and_install_def usable_def cache_lookup_def Let_def split: option.splits)

lemma load_and_install_calls:
  "calls (load_and_install env ot src s)
     = calls s @ [LoadDownloaded src ot (load_downloaded_model env src ot (disk s))]"
  by (simp add: load_and_install_def Let_def split: option.splits)

lemma load_step:
  fixes s t :: "'e state"
  assumes t: "loaded_model t = loaded_model s" "calls t = calls s @ pre"
      "\<forall>a b l. LoadDownloaded a b l \<notin> set pre"
  shows "\<exists>evs. calls (load_and_install env ot src t) = calls s @ evs
            \<and> load_outcome (loaded_model s) (loaded_model (load_and_install env ot src t)) ot src evs"
proof -
  let ?l = "load_downloaded_model env src ot (disk t)"
  have c: "calls (load_and_install env ot src t) = calls s @ (pre @ [LoadDownloaded src ot ?l])"
    by (simp add: load_and_install_calls t)
  from load_and_install_cases [of env src ot t]
  have "load_outcome (loaded_model s) (loaded_model (load_and_install env ot src t)) ot src
          (pre @ [LoadDownloaded src ot ?l])"
    using t by (auto simp: load_outcome_def)
  with c show ?thesis by blast
qed

lemma no_load_outcome:
  "\<forall>a b l. LoadDownloaded a b l \<notin> set evs \<Longrightarrow> load_outcome lm lm ot src evs"
  by (simp add: load_outcome_def)

lemma remove_on_mismatch_facts:
  "loaded_model (remove_on_mismatch p mm s) = loaded_model s
   \<and> (\<exists>evs. calls (remove_on_mismatch p mm s) = calls s @ evs
         \<and> (\<forall>a b l. LoadDownloaded a b l \<notin> set evs))"
  by (simp add: remove_on_mismatch_def os_path_exists_def shutil_rmtree_def)

lemma fetch_model_facts:
  "fetch_model env data pr p s = (r, s1) \<Longrightarrow>
     loaded_model s1 = loaded_model s
     \<and> (\<exists>evs. calls s1 = calls s @ evs \<and> (\<forall>a b l. LoadDownloaded a b l \<notin> set evs))"
  by (auto simp: fetch_model_def os_path_exists_def call_make_request_def
      call_get_achived_model_def Let_def split: prod.splits if_splits option.splits)

lemma resolve_model_outcome:
  fixes s s1 :: "'e state"
  assumes "resolve_model env data pr ot src mm s = (r, s1)"
  shows "\<exists>evs. calls s1 = calls s @ evs \<and> load_outcome (loaded_model s) (loaded_model s1) ot src evs"
proof -
  let ?p = "get_download_output_path env (download_path env) src ot"
  let ?sa = "remove_on_mismatch ?p mm s"
  obtain r2 s2 where f: "fetch_model env data pr ?p ?sa = (r2, s2)"
    by (cases "fetch_model env data pr ?p ?sa")
  from remove_on_mismatch_facts [of ?p mm s] fetch_model_facts [OF f]
  obtain evs where e: "loaded_model s2 = loaded_model s" "calls s2 = calls s @ evs"
      "\<forall>a b l. LoadDownloaded a b l \<notin> set evs"
    by auto
  show ?thesis
  proof (cases r2)
    case (Inl resp)
    with assms f have "s1 = s2" by (simp add: resolve_model_def Let_def)
    with e no_load_outcome [OF e(3), of "loaded_model s" ot src] show ?thesis by auto
  next
    case (Inr p)
    with assms f have "s1 = load_and_install env ot src s2" by (auto simp: resolve_model_def Let_def)
    with load_step [OF e, of env ot src] show ?thesis by simp
  qed
qed

lemma init_output_type_facts:
  "calls (init_output_type ot s) = calls s
   \<and> cache_lookup (loaded_model (init_output_type ot s)) k1 k2 = cache_lookup (loaded_model s) k1 k2"
  by (auto simp: init_output_type_def cache_lookup_def split: option.splits)

lemma handle_power_request_outcome:
  fixes s s' :: "'e state"
  assumes "handle_power_request env data pr s = (r, s')"
  shows "\<exists>evs. calls s' = calls s @ evs
      \<and> lookups_outcome (loaded_model s) (loaded_model s') (output_type pr)
           (normalize_energy_source (energy_source pr)) evs"
proof -
  let ?ot = "output_type pr" and ?src = "normalize_energy_source (energy_source pr)"
  let ?s0 = "init_output_type ?ot s"
  let ?pr1 = "pr\<lparr>energy_source := Some ?src\<rparr>"
  let ?mm = "mismatch_trainer env (loaded_model ?s0) ?ot ?src (trainer_name ?pr1)"
  have trivial: "\<exists>evs. calls s = calls s @ evs
      \<and> lookups_outcome (loaded_model s) (loaded_model s) ?ot ?src evs"
    by (rule exI [of _ "[]"]) (simp add: lookups_outcome_def)
  consider (reject) "\<not> (is_output_type_supported env ?ot)"
    | (cached) "is_output_type_supported env ?ot" "\<not> (cache_lookup (loaded_model ?s0) ?ot ?src = None \<or> ?mm)"
    | (resolve) "is_output_type_supported env ?ot" "cache_lookup (loaded_model ?s0) ?ot ?src = None \<or> ?mm"
    by blast
  then show ?thesis
  proof cases
    case reject
    with assms have "s' = s" by (simp add: handle_power_request_def)
    with trivial show ?thesis by simp
  next
    case cached
    with assms have p: "predict env ?pr1 ?ot ?src [] ?s0 = (r, s')"
      by (auto simp: handle_power_request_def is_output_type_supported_def Let_def
          split: if_splits)
    from predict_keeps_cache [OF p] init_output_type_facts [of ?ot s]
    show ?thesis by (auto simp: lookups_outcome_def)
  next
    case resolve
    obtain r1 s1 where rm: "resolve_model env data ?pr1 ?ot ?src ?mm ?s0 = (r1, s1)"
      by (cases "resolve_model env data ?pr1 ?ot ?src ?mm ?s0")
    from resolve_model_outcome [OF rm] obtain evs where
      e: "calls s1 = calls s @ evs" "load_outcome (loaded_model ?s0) (loaded_model s1) ?ot ?src evs"
      using init_output_type_facts [of ?ot s] by auto
    have "\<exists>evs2. calls s' = calls s1 @ evs2 \<and> (\<forall>a b l. LoadDownloaded a b l \<notin> set evs2)
            \<and> loaded_model s' = loaded_model s1"
    proof (cases r1)
      case (Inl resp)
      with assms resolve rm have "s' = s1"
        by (auto simp: handle_power_request_def is_output_type_supported_def Let_def
            split: if_splits)
      then show ?thesis by simp
    next
      case (Inr p)
      with assms resolve rm have "predict env ?pr1 ?ot ?src p s1 = (r, s')"
        by (auto simp: handle_power_request_def is_output_type_supported_def Let_def
            split: if_splits)
      from predict_keeps_cache [OF this] show ?thesis by auto
    qed
    then obtain evs2 where e2: "calls s' = calls s1 @ evs2"
        "\<forall>a b l. LoadDownloaded a b l \<notin> set evs2" "loaded_model s' = loaded_model s1"
      by blast
    have "lookups_outcome (loaded_model s) (loaded_model s') ?ot ?src (evs @ evs2)"
      using e(2) e2(2,3) init_output_type_facts [of ?ot s]
      by (auto simp: load_outcome_def lookups_outcome_def)
    with e(1) e2(1) show ?thesis by auto
  qed
qed

lemma handle_request_outcome:
  fixes s s' :: "'e state"
  assumes "handle_request env data s = (r, s')"
  shows "\<exists>ot src evs. calls s' = calls s @ evs
      \<and> lookups_outcome (loaded_model s) (loaded_model s') ot src evs"
proof (cases "json_loads env data")
  case (Inl e)
  with assms have "s' = s" by (simp add: handle_request_def)
  then have "calls s' = calls s @ [] \<and> lookups_outcome (loaded_model s) (loaded_model s') a b []" for a b
    by (simp add: lookups_outcome_def)
  then show ?thesis by blast
next
  case (Inr v)
  show ?thesis
  proof (cases v)
    case (Request pr)
    with Inr assms have "handle_power_request env data pr s = (r, s')"
      by (simp add: handle_request_def)
    from handle_power_request_outcome [OF this] show ?thesis by blast
  next
    case NotAnObject
    with Inr assms have "s' = s" by (simp add: handle_request_def)
    then have "calls s' = calls s @ [] \<and> lookups_outcome (loaded_model s) (loaded_model s') a b []" for a b
      by (simp add: lookups_outcome_def)
    then show ?thesis by blast
  qed
qed












subsection \<open>Normalisation of the energy source\<close>



subsection \<open>Unsupported output types\<close>

text \<open>
  Claim C7. A request whose output type is not supported gets a response with an empty
  powers mapping and a non-empty message. The response is the same whatever the state is
  (the cache is not consulted), and the state that comes back is the state that went in:
  no cache entry is made or changed, the disk is not touched, no call is logged.
\<close>

theorem unsupported_output_type_rejected:
  assumes "json_loads env data = Inr (Request pr)"
      and "\<not> is_output_type_supported env (output_type pr)"
  shows "\<exists>r. powers r = Map.empty \<and> msg r \<noteq> []
           \<and> (\<forall>s. handle_request env data s = (Inr r, s))"
  using assms by (simp add: handle_request_def handle_power_request_def)

theorem unsupported_output_type_rejected_witness:
  "\<exists>r. powers r = Map.empty \<and> msg r \<noteq> []
      \<and> (\<forall>s. handle_request (toy_env True None None None) ''{watt acpi}'' s = (Inr r, s))"
proof -
  have p: "json_loads (toy_env True None None None) ''{watt acpi}''
             = Inr (Request (toy_request (Some ''acpi'') (Some []) ''Watt''))"
    by (simp add: toy_defs)
  have u: "\<not> is_output_type_supported (toy_env True None None None)
               (output_type (toy_request (Some ''acpi'') (Some []) ''Watt''))"
    by (simp add: toy_defs is_output_type_supported_def)
  show ?thesis by (rule unsupported_output_type_rejected [OF p u])
qed

subsection \<open>The trainer-mismatch flag\<close>

text \<open>
  Claim C3, as the code has it. The flag is set exactly when the model server is enabled
  and the request names a non-empty trainer, the key pair has a cache entry, and the
  trainer of that entry differs from the named one. With the model server disabled the
  flag is never set.
\<close>

theorem mismatch_flag_needs_model_server:
  "mismatch_trainer env lm ot src tn
     = (is_model_server_enabled env \<and> names_other_trainer lm ot src tn)"
  by (auto simp: mismatch_trainer_def names_other_trainer_def cache_lookup_def
      split: option.splits)

theorem mismatch_flag_needs_model_server_witness:
  "mismatch_trainer (toy_env True None None None)
       [''AbsPower'' \<mapsto> [''rapl-sysfs'' \<mapsto> toy_item ''SGDRegressorTrainer'' (Some 1)]]
       ''AbsPower'' ''rapl-sysfs'' (Some ''XgboostFitTrainer'')"
  using mismatch_flag_needs_model_server [of "toy_env True None None None"
       "[''AbsPower'' \<mapsto> [''rapl-sysfs'' \<mapsto> toy_item ''SGDRegressorTrainer'' (Some 1)]]"
       "''AbsPower''" "''rapl-sysfs''" "Some ''XgboostFitTrainer''"]
  by (simp add: names_other_trainer_def cache_lookup_def toy_defs)

text \<open>
  Claim C3 as stated fails: with the model server disabled, a request that names
  \<^verbatim>\<open>XgboostFitTrainer\<close> against a cached item of \<^verbatim>\<open>SGDRegressorTrainer\<close> leaves the flag unset.
\<close>

theorem mismatch_flag_counterexample:
  "mismatch_trainer (toy_env False None None None)
       [''AbsPower'' \<mapsto> [''rapl-sysfs'' \<mapsto> toy_item ''SGDRegressorTrainer'' (Some 1)]]
       ''AbsPower'' ''rapl-sysfs'' (Some ''XgboostFitTrainer'')
   \<noteq> names_other_trainer
       [''AbsPower'' \<mapsto> [''rapl-sysfs'' \<mapsto> toy_item ''SGDRegressorTrainer'' (Some 1)]]
       ''AbsPower'' ''rapl-sysfs'' (Some ''XgboostFitTrainer'')"
  by (simp add: mismatch_trainer_def names_other_trainer_def cache_lookup_def toy_defs)

subsection \<open>Requests served from the cache\<close>

text \<open>
  Claim C6. When the key pair of a supported request holds a cached item and the trainer
  name raises no mismatch, any number of repetitions of the request are each answered by
  the prediction of that same item, and the state after them is the state before them: no
  path check, download, load or deletion is logged, the disk and the cache are unchanged.
\<close>

theorem cached_model_no_disk_access:
  assumes "json_loads env data = Inr (Request pr)"
      and "is_output_type_supported env (output_type pr)"
      and "cache_lookup (loaded_model s) (output_type pr)
             (normalize_energy_source (energy_source pr)) = Some model"
      and "\<not> mismatch_trainer env (loaded_model s) (output_type pr)
             (normalize_energy_source (energy_source pr)) (trainer_name pr)"
  shows "handle_requests env (replicate n data) s
           = (replicate n (Inr \<lparr>powers = fst (get_power env model (datapoint pr)),
                                msg = snd (get_power env model (datapoint pr))\<rparr>), s)"
  by (induction n) (simp_all add: served_from_cache [OF assms])

theorem cached_model_no_disk_access_witness:
  "handle_requests (toy_env True None None None) (replicate 3 ''{abs rapl}'')
     (toy_state [''AbsPower'' \<mapsto> [''rapl-sysfs'' \<mapsto> toy_item ''SGDRegressorTrainer'' (Some 1)]]
        {''/d/rapl-sysfs/AbsPower''})
   = (replicate 3 (Inr \<lparr>powers = [''package'' \<mapsto> 42], msg = []\<rparr>),
      toy_state [''AbsPower'' \<mapsto> [''rapl-sysfs'' \<mapsto> toy_item ''SGDRegressorTrainer'' (Some 1)]]
        {''/d/rapl-sysfs/AbsPower''})"
proof -
  let ?env = "toy_env True None None None"
  let ?pr = "toy_request (Some ''rapl'') (Some []) ''AbsPower''"
  let ?s = "toy_state
        [''AbsPower'' \<mapsto> [''rapl-sysfs'' \<mapsto> toy_item ''SGDRegressorTrainer'' (Some 1)]]
        {''/d/rapl-sysfs/AbsPower''}"
  have p: "json_loads ?env ''{abs rapl}'' = Inr (Request ?pr)"
    by (simp add: toy_defs)
  have u: "is_output_type_supported ?env (output_type ?pr)"
    by (simp add: toy_defs is_output_type_supported_def)
  have c: "cache_lookup (loaded_model ?s) (output_type ?pr)
             (normalize_energy_source (energy_source ?pr))
           = Some (toy_item ''SGDRegressorTrainer'' (Some 1))"
    by (simp add: toy_defs cache_lookup_def normalize_energy_source_def)
  have m: "\<not> mismatch_trainer ?env (loaded_model ?s) (output_type ?pr)
             (normalize_energy_source (energy_source ?pr)) (trainer_name ?pr)"
    by (simp add: toy_defs mismatch_trainer_def)
  show ?thesis
    using cached_model_no_disk_access [OF p u c m, of 3]
    by (simp add: toy_defs)
qed

subsection \<open>A load that fails\<close>

text \<open>
  Claim C9. In a run of \<^verbatim>\<open>handle_request\<close> in which the loader is called and what it
  returns is not usable (None, or an item whose estimator is None), the cache maps every
  key pair, the one of the request among them, to what it mapped it to before the run.
\<close>

theorem failed_load_keeps_cache_entry:
  assumes "handle_request env data s = (r, s')"
      and "LoadDownloaded src ot loaded \<in> set (new_calls s s')"
      and "\<not> usable loaded"
  shows "cache_lookup (loaded_model s') k1 k2 = cache_lookup (loaded_model s) k1 k2"
proof -
  from handle_request_outcome [OF assms(1)] obtain ot' src' evs where
    e: "calls s' = calls s @ evs"
       "lookups_outcome (loaded_model s) (loaded_model s') ot' src' evs"
    by blast
  from e(1) have "new_calls s s' = evs" by (simp add: new_calls_def)
  with assms(2) have m: "LoadDownloaded src ot loaded \<in> set evs" by simp
  have "\<not> (\<exists>item. estimator item \<noteq> None
            \<and> (\<forall>a b l. LoadDownloaded a b l \<in> set evs \<longrightarrow> l = Some item))"
  proof
    assume "\<exists>item. estimator item \<noteq> None
            \<and> (\<forall>a b l. LoadDownloaded a b l \<in> set evs \<longrightarrow> l = Some item)"
    then obtain item where "estimator item \<noteq> None" "loaded = Some item" using m by blast
    with assms(3) show False by (simp add: usable_def)
  qed
  with e(2) show ?thesis unfolding lookups_outcome_def by blast
qed

theorem failed_load_keeps_cache_entry_witness:
  "cache_lookup
     (loaded_model (snd (handle_request
        (toy_env True (Some ''/d/rapl-sysfs/AbsPower'') None None) ''{abs rapl xgb}''
        (toy_state [''AbsPower'' \<mapsto> [''rapl-sysfs'' \<mapsto> toy_item ''SGDRegressorTrainer'' (Some 1)]]
           {''/d/rapl-sysfs/AbsPower''}))))
     ''AbsPower'' ''rapl-sysfs''
   = Some (toy_item ''SGDRegressorTrainer'' (Some 1))"
proof -
  let ?env = "toy_env True (Some ''/d/rapl-sysfs/AbsPower'') None None"
  let ?s = "toy_state [''AbsPower'' \<mapsto> [''rapl-sysfs'' \<mapsto> toy_item ''SGDRegressorTrainer'' (Some 1)]]
           {''/d/rapl-sysfs/AbsPower''}"
  let ?run = "handle_request ?env ''{abs rapl xgb}'' ?s"
  have r: "?run = (fst ?run, snd ?run)" by simp
  have l: "LoadDownloaded ''rapl-sysfs'' ''AbsPower'' None \<in> set (new_calls ?s (snd ?run))"
    by (simp add: new_calls_def toy_defs hr_defs)
  have u: "\<not> usable (None :: nat loaded_item option)" by (simp add: usable_def)
  show ?thesis
    using failed_load_keeps_cache_entry [OF r l u, of "''AbsPower''" "''rapl-sysfs''"]
    by (simp add: toy_defs cache_lookup_def)
qed

subsection \<open>A request that names another trainer\<close>




subsection \<open>Resolution that fails\<close>




subsection \<open>A prediction that fails\<close>




subsection \<open>Exceptions that leave \<^verbatim>\<open>handle_request\<close>\<close>

text \<open>
  Claim C1 fails on the code. An empty cache, a supported request, the model server gives
  no path, the archive gives one, and the loader returns None: nothing is put into the
  cache, and line 101 looks the key pair up all the same. The KeyError leaves
  \<^verbatim>\<open>handle_request\<close>. So does the AttributeError of line 54 when the text is JSON but not an
  object.
\<close>

theorem load_failure_raises_key_error:
  "fst (handle_request (toy_env True None (Some ''/d/rapl-sysfs/AbsPower'') None) ''{abs rapl}''
          (toy_state Map.empty {}))
     = Inl KeyError
   \<and> fst (handle_request (toy_env True None None None) ''[1]'' (toy_state Map.empty {}))
     = Inl AttributeError"
  by (simp add: toy_defs hr_defs)

subsection \<open>The read loop of the connection handler\<close>

text \<open>
  Claim C8 fails on the code. The request arrives in three pieces, the second of them a
  lone line feed (or an empty byte string): the stripped piece is empty, its last
  character does not exist, and the IndexError of line 136 leaves \<^verbatim>\<open>accepted\<close> before
  anything is sent, although the bytes received end in a closing brace. The same bytes in
  two pieces are read to the end and answered with one response.
\<close>

theorem empty_chunk_raises_index_error:
  "accepted (toy_env True None None None)
       (toy_connection [''{abs r'', [CHR 0x0A], ''apl}''] False)
       (toy_state [''AbsPower'' \<mapsto> [''rapl-sysfs'' \<mapsto> toy_item ''SGDRegressorTrainer'' (Some 1)]] {})
     = Some (Inl IndexError)
   \<and> accepted (toy_env True None None None)
       (toy_connection [''{abs r'', [], ''apl}''] False)
       (toy_state [''AbsPower'' \<mapsto> [''rapl-sysfs'' \<mapsto> toy_item ''SGDRegressorTrainer'' (Some 1)]] {})
     = Some (Inl IndexError)
   \<and> accepted (toy_env True None None None)
       (toy_connection [''{abs r'', ''apl}''] False)
       (toy_state [''AbsPower'' \<mapsto> [''rapl-sysfs'' \<mapsto> toy_item ''SGDRegressorTrainer'' (Some 1)]] {})
     = Some (Inr (\<lparr>incoming = [], peer_eof = False, outgoing = [''{msg: }'']\<rparr>,
          toy_state [''AbsPower'' \<mapsto> [''rapl-sysfs'' \<mapsto> toy_item ''SGDRegressorTrainer'' (Some 1)]] {}))"
  by (simp add: conn_defs toy_defs hr_defs)

end
